theory Spec2Isabelle
  imports Main "HOL-Library.Sublist"
begin

section \<open>Python values used by \<open>main.py\<close>\<close>

text \<open>
  A Python \<open>str\<close> is a sequence of Unicode code points; \<open>len\<close>, slicing and
  \<open>str.strip\<close> all work on code points, so a string is modelled as a list of code
  point numbers. A token is a Python \<open>int\<close>; token sequences are Python lists.
\<close>

type_synonym codepoint = nat
type_synonym pystr = "codepoint list"
type_synonym token = int

text \<open>The code points of an ASCII literal of the source, such as \<open>'cl100k_base'\<close>.\<close>

definition py_str :: "string \<Rightarrow> pystr" where
  "py_str s = map of_char s"

text \<open>
  Exceptions that the external tokenizer library or the interpreter raises. Every
  constructor stands for a subclass of Python's \<open>Exception\<close>, which is what
  \<open>except Exception\<close> catches.
\<close>

datatype py_exception = KeyError string | ValueError string | OtherException string

text \<open>
  \<open>str.strip()\<close> without argument removes the characters for which CPython's
  \<open>Py_UNICODE_ISSPACE\<close> holds: TAB, LF, VT, FF, CR, the separators FS, GS, RS, US, the
  space, NEL, the no-break space and the Unicode space separators.
\<close>

definition py_isspace :: "codepoint \<Rightarrow> bool" where
  "py_isspace c \<longleftrightarrow>
     (0x09 \<le> c \<and> c \<le> 0x0D) \<or> (0x1C \<le> c \<and> c \<le> 0x20) \<or> c = 0x85 \<or> c = 0xA0 \<or>
     c = 0x1680 \<or> (0x2000 \<le> c \<and> c \<le> 0x200A) \<or> c = 0x2028 \<or> c = 0x2029 \<or>
     c = 0x202F \<or> c = 0x205F \<or> c = 0x3000"

text \<open>
  CPython's strip advances a left index over the leading whitespace and then moves a right
  index back over the trailing whitespace of what is left, returning the slice between.
\<close>

definition py_lstrip :: "pystr \<Rightarrow> pystr" where
  "py_lstrip s = dropWhile py_isspace s"

definition py_rstrip :: "pystr \<Rightarrow> pystr" where
  "py_rstrip s = rev (dropWhile py_isspace (rev s))"

definition py_strip :: "pystr \<Rightarrow> pystr" where
  "py_strip s = py_rstrip (py_lstrip s)"

text \<open>
  The slice \<open>xs[:stop]\<close> for an integer \<open>stop\<close>: a negative \<open>stop\<close> counts from the
  end and is clipped at 0, a \<open>stop\<close> beyond the end is clipped at \<open>len(xs)\<close>. Slicing
  never raises.
\<close>

definition py_slice_upto :: "'a list \<Rightarrow> int \<Rightarrow> 'a list" where
  "py_slice_upto xs stop =
     (let n = int (length xs);
          hi = (if stop < 0 then max 0 (stop + n) else min stop n)
      in take (nat hi) xs)"

text \<open>
  Converting an \<open>int\<close> to its decimal string, as an f-string does, raises
  \<open>ValueError\<close> in CPython when the number has more than 4300 digits, the default of
  \<open>sys.get_int_max_str_digits()\<close>; the sign does not count.
\<close>

definition int_max_str_digits :: nat where
  "int_max_str_digits = 4300"

definition py_int_str_raises :: "int \<Rightarrow> bool" where
  "py_int_str_raises n \<longleftrightarrow> 10 ^ int_max_str_digits \<le> \<bar>n\<bar>"

section \<open>The external tokenizer library\<close>

text \<open>
  \<open>tiktoken\<close> is not part of the repository. An encoding object offers \<open>encode\<close>, which
  returns a list of token ids or raises; the library offers the two lookups the source
  calls, each of which returns an encoding or raises. Both are parameters of the model.
\<close>

record tiktoken_Encoding =
  enc_name :: string
  enc_encode :: "pystr \<Rightarrow> py_exception + token list"

record tiktoken =
  encoding_for_model :: "pystr \<Rightarrow> py_exception + tiktoken_Encoding"
  get_encoding :: "pystr \<Rightarrow> py_exception + tiktoken_Encoding"

section \<open>The classes of \<open>main.py\<close>\<close>

text \<open>
  \<open>TokenOptimizer\<close> and \<open>TokenCounter\<close> have no attributes; \<open>TokenEncoder\<close> holds the
  encoding, \<open>TokenTruncator\<close> the limit, \<open>TokenService\<close> the four components. The
  dictionary that \<open>process_prompt\<close> returns has five fixed keys and is a record.
  Logging calls only emit messages and take no part in any returned value. Their
  messages are f-strings, built before the call: they format strings, a caught
  exception, lengths of lists and token ids of the vocabulary, which always succeeds,
  and in \<open>truncate\<close> the limit, which is the one message that can fail to build.
\<close>

datatype TokenOptimizer = TokenOptimizer

datatype TokenCounter = TokenCounter

record TokenEncoder =
  encoding :: tiktoken_Encoding

record TokenTruncator =
  token_limit :: int

record TokenService =
  optimizer :: TokenOptimizer
  encoder :: TokenEncoder
  counter :: TokenCounter
  truncator :: TokenTruncator

record ProcessingResult =
  optimized_prompt :: pystr
  encoded_tokens :: "token list"
  token_count_before :: int
  truncated_tokens :: "token list"
  token_count_after :: int

subsection \<open>TokenOptimizer\<close>

definition optimize_prompt :: "TokenOptimizer \<Rightarrow> pystr \<Rightarrow> pystr" where
  "optimize_prompt self prompt = py_strip prompt"

subsection \<open>TokenEncoder\<close>

text \<open>
  The constructor tries \<open>encoding_for_model\<close>; on any exception it falls back to
  \<open>get_encoding('cl100k_base')\<close>. The fallback call stands inside the handler, so an
  exception it raises leaves the constructor.
\<close>

definition TokenEncoder_init :: "tiktoken \<Rightarrow> pystr \<Rightarrow> py_exception + TokenEncoder" where
  "TokenEncoder_init lib model =
     (case encoding_for_model lib model of
        Inr e \<Rightarrow> Inr \<lparr>encoding = e\<rparr>
      | Inl _ \<Rightarrow>
          (case get_encoding lib (py_str ''cl100k_base'') of
             Inr d \<Rightarrow> Inr \<lparr>encoding = d\<rparr>
           | Inl err \<Rightarrow> Inl err))"

definition encode :: "TokenEncoder \<Rightarrow> pystr \<Rightarrow> py_exception + token list" where
  "encode self prompt = enc_encode (encoding self) prompt"

subsection \<open>TokenCounter\<close>

definition get_token_count :: "TokenCounter \<Rightarrow> token list \<Rightarrow> int" where
  "get_token_count self tokens = int (length tokens)"

subsection \<open>TokenTruncator\<close>

definition TokenTruncator_init :: "int \<Rightarrow> TokenTruncator" where
  "TokenTruncator_init limit = \<lparr>token_limit = limit\<rparr>"

text \<open>
  On the truncating branch the slice is taken first, then the message
  \<open>f"Truncated tokens to limit: {self.token_limit}"\<close> is built, then the slice is
  returned. A limit \<open>\<ge> 0\<close> on this branch is below \<open>len(tokens)\<close>, and no Python
  list is longer than \<open>sys.maxsize\<close>, so only a negative limit can be too long to
  format.
\<close>

definition truncate :: "TokenTruncator \<Rightarrow> token list \<Rightarrow> py_exception + token list" where
  "truncate self tokens =
     (if int (length tokens) > token_limit self
      then (let truncated = py_slice_upto tokens (token_limit self) in
            if token_limit self < 0 \<and> py_int_str_raises (token_limit self)
            then Inl (ValueError ''Exceeds the limit (4300 digits) for integer string conversion'')
            else Inr truncated)
      else Inr tokens)"

subsection \<open>TokenService\<close>

text \<open>
  The constructor's parameters default to the model \<open>'gpt-3.5-turbo'\<close> and the
  limit 4096.
\<close>

definition default_model :: pystr where
  "default_model = py_str ''gpt-3.5-turbo''"

definition default_token_limit :: int where
  "default_token_limit = 4096"

definition TokenService_init :: "tiktoken \<Rightarrow> pystr \<Rightarrow> int \<Rightarrow> py_exception + TokenService" where
  "TokenService_init lib model limit =
     (case TokenEncoder_init lib model of
        Inl e \<Rightarrow> Inl e
      | Inr enc \<Rightarrow>
          Inr \<lparr>optimizer = TokenOptimizer, encoder = enc, counter = TokenCounter,
               truncator = TokenTruncator_init limit\<rparr>)"

definition process_prompt :: "TokenService \<Rightarrow> pystr \<Rightarrow> py_exception + ProcessingResult" where
  "process_prompt self prompt =
     (let optimized = optimize_prompt (optimizer self) prompt in
      case encode (encoder self) optimized of
        Inl e \<Rightarrow> Inl e
      | Inr tokens \<Rightarrow>
          (let count_before = get_token_count (counter self) tokens in
           case truncate (truncator self) tokens of
             Inl e \<Rightarrow> Inl e
           | Inr truncated \<Rightarrow>
               (let count_after = get_token_count (counter self) truncated
                in Inr \<lparr>optimized_prompt = optimized,
                        encoded_tokens = tokens,
                        token_count_before = count_before,
                        truncated_tokens = truncated,
                        token_count_after = count_after\<rparr>)))"

section \<open>A sample library for concrete evaluation\<close>

text \<open>
  A small stand-in for the tokenizer library, used only to run the model on concrete
  inputs: it knows two model names and the default vocabulary, and its encodings map each
  code point to one token.
\<close>

definition sample_encoding :: "string \<Rightarrow> tiktoken_Encoding" where
  "sample_encoding n = \<lparr>enc_name = n, enc_encode = (\<lambda>text. Inr (map int text))\<rparr>"

definition sample_tiktoken :: tiktoken where
  "sample_tiktoken =
     \<lparr>encoding_for_model =
        (\<lambda>m. if m = py_str ''gpt-3.5-turbo'' then Inr (sample_encoding ''cl100k_base'')
             else if m = py_str ''gpt-2'' then Inr (sample_encoding ''gpt2'')
             else Inl (KeyError ''Could not automatically map model to a tokeniser'')),
      get_encoding =
        (\<lambda>n. if n = py_str ''cl100k_base'' then Inr (sample_encoding ''cl100k_base'')
             else if n = py_str ''gpt2'' then Inr (sample_encoding ''gpt2'')
             else Inl (ValueError ''Unknown encoding''))\<rparr>"


definition sample_service :: "int \<Rightarrow> TokenService" where
  "sample_service limit =
     \<lparr>optimizer = TokenOptimizer,
      encoder = \<lparr>encoding = sample_encoding ''cl100k_base''\<rparr>,
      counter = TokenCounter,
      truncator = TokenTruncator_init limit\<rparr>"

section \<open>Formatting the limit\<close>

lemma int_str_bound_ge_10: "(10::int) \<le> 10 ^ int_max_str_digits"
proof -
  have "(10::int) ^ 1 \<le> 10 ^ int_max_str_digits"
    by (rule power_increasing) (simp_all add: int_max_str_digits_def)
  then show ?thesis by simp
qed

lemma small_int_formats: "\<bar>n\<bar> < 10 \<Longrightarrow> \<not> py_int_str_raises n"
  unfolding py_int_str_raises_def using int_str_bound_ge_10 by linarith

lemma int_str_bound_4300: "(10::int) ^ int_max_str_digits = 10 ^ 4300"
  unfolding int_max_str_digits_def by (rule refl)

lemma py_int_str_raises_4301_digits: "py_int_str_raises (- (10 ^ 4300))"
  unfolding py_int_str_raises_def int_str_bound_4300 abs_minus_cancel
  by (rule order_trans [OF _ abs_ge_self]) (rule order_refl)

section \<open>Slicing and truncation\<close>

lemma py_slice_upto_nonneg:
  "0 \<le> stop \<Longrightarrow> py_slice_upto xs stop = take (nat stop) xs"
  by (simp add: py_slice_upto_def Let_def min_def)

lemma py_slice_upto_neg:
  "stop < 0 \<Longrightarrow> py_slice_upto xs stop = take (nat (max 0 (int (length xs) + stop))) xs"
  by (simp add: py_slice_upto_def Let_def add.commute)

lemma truncate_nonneg:
  "0 \<le> token_limit self \<Longrightarrow> truncate self s = Inr (take (nat (token_limit self)) s)"
  by (simp add: truncate_def py_slice_upto_nonneg Let_def)

lemma truncate_neg_formats:
  assumes "token_limit self < 0" and "\<not> py_int_str_raises (token_limit self)"
  shows "truncate self s = Inr (take (nat (max 0 (int (length s) + token_limit self))) s)"
proof -
  have "int (length s) > token_limit self"
    using assms(1) by linarith
  then show ?thesis
    using assms by (simp add: truncate_def Let_def py_slice_upto_neg)
qed

lemma truncate_neg_raises:
  assumes "token_limit self < 0" and "py_int_str_raises (token_limit self)"
  shows "truncate self s
           = Inl (ValueError ''Exceeds the limit (4300 digits) for integer string conversion'')"
proof -
  have "int (length s) > token_limit self"
    using assms(1) by linarith
  then show ?thesis
    using assms by (simp add: truncate_def Let_def)
qed

text \<open>
  C3: for every token sequence \<open>s\<close> and every limit \<open>L \<ge> 0\<close>, truncation returns a
  sequence that has length exactly \<open>min(len(s), L)\<close> and is a prefix of \<open>s\<close>: it
  consists of the earliest tokens, the tail is dropped.
\<close>

theorem truncate_length_prefix:
  assumes "0 \<le> token_limit self"
  shows "\<exists>t. truncate self s = Inr t
           \<and> int (length t) = min (int (length s)) (token_limit self)
           \<and> prefix t s
           \<and> t = take (nat (token_limit self)) s"
proof -
  let ?t = "take (nat (token_limit self)) s"
  have eq: "truncate self s = Inr ?t"
    using assms by (rule truncate_nonneg)
  have len: "int (length ?t) = min (int (length s)) (token_limit self)"
    using assms by (cases "length s \<le> nat (token_limit self)") auto
  have pre: "prefix ?t s"
    by (rule take_is_prefix)
  from eq len pre show ?thesis by blast
qed

theorem truncate_length_prefix_witness:
  "(0::int) \<le> token_limit (TokenTruncator_init 2)
   \<and> truncate (TokenTruncator_init 2) [11, 22, 33] = Inr [11, 22]
   \<and> int (length [11, 22 :: int]) = min (int (length [11, 22, 33 :: int])) 2
   \<and> prefix [11, 22] [11, 22, 33 :: int]"
  using truncate_length_prefix [of "TokenTruncator_init 2" "[11, 22, 33]"]
  by (simp add: TokenTruncator_init_def)

text \<open>
  C6: for every token sequence \<open>s\<close> and every limit \<open>L\<close> with \<open>len(s) \<le> L\<close>,
  truncation returns \<open>s\<close> unchanged.
\<close>

theorem truncate_within_limit:
  "int (length s) \<le> token_limit self \<Longrightarrow> truncate self s = Inr s"
  by (simp add: truncate_def)

theorem truncate_within_limit_witness:
  "int (length [11, 22, 33 :: int]) \<le> token_limit (TokenTruncator_init 3)
   \<and> truncate (TokenTruncator_init 3) [11, 22, 33] = Inr [11, 22, 33]"
  using truncate_within_limit [of "[11, 22, 33]" "TokenTruncator_init 3"]
  by (simp add: TokenTruncator_init_def)

text \<open>
  C10 as stated does not hold for every negative limit: with the limit \<open>-(10 ** 4300)\<close>,
  which has 4301 digits, the guard holds, the message cannot be built and \<open>truncate\<close>
  raises \<open>ValueError\<close> instead of returning a list.
\<close>

theorem truncate_negative_limit_raises:
  "truncate (TokenTruncator_init (- (10 ^ 4300))) [1, 2, 3]
     = Inl (ValueError ''Exceeds the limit (4300 digits) for integer string conversion'')"
proof -
  let ?L = "- (10 ^ 4300) :: int"
  have lim: "token_limit (TokenTruncator_init ?L) = ?L"
    unfolding TokenTruncator_init_def by (rule TokenTruncator.select_convs)
  have "(0::int) < 10 ^ 4300"
    by (rule zero_less_power) simp
  then have neg: "token_limit (TokenTruncator_init ?L) < 0"
    unfolding lim by (rule iffD2 [OF neg_less_0_iff_less])
  have big: "py_int_str_raises (token_limit (TokenTruncator_init ?L))"
    unfolding lim by (rule py_int_str_raises_4301_digits)
  from neg big show ?thesis by (rule truncate_neg_raises)
qed

text \<open>
  C10 (amended): a truncator constructed with a negative limit \<open>L = -k\<close>, \<open>k > 0\<close>, of at
  most 4300 digits returns for every token sequence \<open>s\<close> its first
  \<open>max(0, len(s) - k)\<close> elements: the guard \<open>len(s) > L\<close> always holds and the slice
  \<open>s[:-k]\<close> drops the last \<open>min(k, len(s))\<close> tokens; the negative limit is not treated
  as an error.
\<close>

theorem truncate_negative_limit:
  assumes "0 < k" and "k < 10 ^ int_max_str_digits"
  shows "\<exists>t. truncate (TokenTruncator_init (- k)) s = Inr t
           \<and> t = take (nat (max 0 (int (length s) - k))) s
           \<and> int (length t) = int (length s) - min k (int (length s))"
proof -
  let ?t = "take (nat (max 0 (int (length s) - k))) s"
  have neg: "token_limit (TokenTruncator_init (- k)) < 0"
    using assms(1) by (simp add: TokenTruncator_init_def)
  have fmt: "\<not> py_int_str_raises (token_limit (TokenTruncator_init (- k)))"
    using assms by (simp add: TokenTruncator_init_def py_int_str_raises_def)
  have eq: "truncate (TokenTruncator_init (- k)) s = Inr ?t"
    using truncate_neg_formats [OF neg fmt, of s] by (simp add: TokenTruncator_init_def)
  have len: "int (length ?t) = int (length s) - min k (int (length s))"
    using assms(1) by (cases "k \<le> int (length s)") auto
  from eq len show ?thesis by blast
qed

theorem truncate_negative_limit_witness:
  "(0::int) < 2 \<and> (2::int) < 10 ^ int_max_str_digits
   \<and> truncate (TokenTruncator_init (- 2)) [1, 2, 3, 4, 5] = Inr [1, 2, 3]
   \<and> int (length [1, 2, 3 :: int]) = int (length [1, 2, 3, 4, 5 :: int]) - min 2 5"
proof -
  have k: "(0::int) < 2" by simp
  have b: "(2::int) < 10 ^ int_max_str_digits"
    using int_str_bound_ge_10 by linarith
  show ?thesis
    using truncate_negative_limit [OF k b, of "[1, 2, 3, 4, 5]"] b by simp
qed

section \<open>The normalizer\<close>

lemma py_lstrip_decomp: "\<exists>pre. s = pre @ py_lstrip s \<and> list_all py_isspace pre"
proof -
  have "s = takeWhile py_isspace s @ dropWhile py_isspace s" by simp
  moreover have "list_all py_isspace (takeWhile py_isspace s)"
    by (simp add: list_all_iff) (meson set_takeWhileD)
  ultimately show ?thesis unfolding py_lstrip_def by blast
qed

lemma py_rstrip_decomp: "\<exists>suf. s = py_rstrip s @ suf \<and> list_all py_isspace suf"
proof -
  have "rev s = takeWhile py_isspace (rev s) @ dropWhile py_isspace (rev s)" by simp
  then have "s = rev (dropWhile py_isspace (rev s)) @ rev (takeWhile py_isspace (rev s))"
    by (metis rev_append rev_rev_ident)
  moreover have "list_all py_isspace (rev (takeWhile py_isspace (rev s)))"
    by (simp add: list_all_iff) (meson set_takeWhileD)
  ultimately show ?thesis unfolding py_rstrip_def by blast
qed

lemma hd_py_lstrip: "py_lstrip s \<noteq> [] \<Longrightarrow> \<not> py_isspace (hd (py_lstrip s))"
  unfolding py_lstrip_def by (rule hd_dropWhile)

lemma last_py_rstrip: "py_rstrip s \<noteq> [] \<Longrightarrow> \<not> py_isspace (last (py_rstrip s))"
  unfolding py_rstrip_def by (simp add: last_rev hd_dropWhile)

lemma py_rstrip_idem: "py_rstrip (py_rstrip s) = py_rstrip s"
  unfolding py_rstrip_def by simp

lemma py_lstrip_fixed: "s = [] \<or> \<not> py_isspace (hd s) \<Longrightarrow> py_lstrip s = s"
  unfolding py_lstrip_def by (cases s) auto

lemma hd_py_strip:
  assumes "py_strip s \<noteq> []"
  shows "\<not> py_isspace (hd (py_strip s))"
proof -
  obtain suf where suf: "py_lstrip s = py_strip s @ suf"
    using py_rstrip_decomp [of "py_lstrip s"] unfolding py_strip_def by blast
  with assms have "hd (py_lstrip s) = hd (py_strip s)"
    by (metis hd_append2)
  moreover from assms suf have "py_lstrip s \<noteq> []" by auto
  ultimately show ?thesis using hd_py_lstrip by metis
qed

lemma py_strip_idem: "py_strip (py_strip s) = py_strip s"
proof -
  have "py_strip s = [] \<or> \<not> py_isspace (hd (py_strip s))"
    using hd_py_strip by blast
  then have "py_lstrip (py_strip s) = py_strip s"
    by (rule py_lstrip_fixed)
  then have "py_strip (py_strip s) = py_rstrip (py_strip s)"
    by (simp add: py_strip_def)
  also have "\<dots> = py_strip s"
    unfolding py_strip_def by (rule py_rstrip_idem)
  finally show ?thesis .
qed

lemma py_strip_decomp:
  "\<exists>pre suf. s = pre @ py_strip s @ suf \<and> list_all py_isspace pre \<and> list_all py_isspace suf"
proof -
  obtain pre where pre: "s = pre @ py_lstrip s" "list_all py_isspace pre"
    using py_lstrip_decomp by blast
  obtain suf where suf: "py_lstrip s = py_strip s @ suf" "list_all py_isspace suf"
    using py_rstrip_decomp [of "py_lstrip s"] unfolding py_strip_def by blast
  from pre(1) suf(1) have "s = pre @ py_strip s @ suf" by simp
  with pre(2) suf(2) show ?thesis by blast
qed

lemma optimize_prompt_empty: "optimize_prompt self [] = []"
  by (simp add: optimize_prompt_def py_strip_def py_lstrip_def py_rstrip_def)

text \<open>
  C7: the normalizer is idempotent for every text, the empty string included, and it
  only strips whitespace at the two ends: the input is the output with a run of
  whitespace before it and a run of whitespace after it, and a non-empty output neither
  starts nor ends with whitespace.
\<close>

theorem optimize_prompt_idempotent_strip:
  "optimize_prompt self (optimize_prompt self t) = optimize_prompt self t
   \<and> optimize_prompt self [] = []
   \<and> (\<exists>pre suf. t = pre @ optimize_prompt self t @ suf
         \<and> list_all py_isspace pre \<and> list_all py_isspace suf)
   \<and> (optimize_prompt self t = []
       \<or> (\<not> py_isspace (hd (optimize_prompt self t))
           \<and> \<not> py_isspace (last (optimize_prompt self t))))"
proof -
  have idem: "optimize_prompt self (optimize_prompt self t) = optimize_prompt self t"
    unfolding optimize_prompt_def by (rule py_strip_idem)
  have decomp: "\<exists>pre suf. t = pre @ optimize_prompt self t @ suf
         \<and> list_all py_isspace pre \<and> list_all py_isspace suf"
    unfolding optimize_prompt_def by (rule py_strip_decomp)
  have ends: "optimize_prompt self t = []
       \<or> (\<not> py_isspace (hd (optimize_prompt self t))
           \<and> \<not> py_isspace (last (optimize_prompt self t)))"
    unfolding optimize_prompt_def
    using hd_py_strip [of t] last_py_rstrip [of "py_lstrip t"]
    by (auto simp: py_strip_def)
  from idem optimize_prompt_empty decomp ends show ?thesis by blast
qed

theorem optimize_prompt_idempotent_strip_witness:
  "optimize_prompt TokenOptimizer (py_str ''  hello world  '') = py_str ''hello world''
   \<and> optimize_prompt TokenOptimizer (optimize_prompt TokenOptimizer (py_str ''  hello world  ''))
       = optimize_prompt TokenOptimizer (py_str ''  hello world  '')"
  using optimize_prompt_idempotent_strip [of TokenOptimizer "py_str ''  hello world  ''"]
  by (simp add: optimize_prompt_def py_strip_def py_lstrip_def py_rstrip_def py_str_def
      py_isspace_def)

section \<open>Evaluating the sample service\<close>

lemma sample_service_fields:
  "optimizer (sample_service L) = TokenOptimizer"
  "counter (sample_service L) = TokenCounter"
  "token_limit (truncator (sample_service L)) = L"
  by (simp_all add: sample_service_def TokenTruncator_init_def)

lemma sample_encode:
  "encode (encoder (sample_service L)) text = Inr (map int text)"
  by (simp add: encode_def sample_service_def sample_encoding_def)

lemma strip_hello:
  "optimize_prompt TokenOptimizer (py_str ''  hello  '') = py_str ''hello''"
  by (simp add: optimize_prompt_def py_strip_def py_lstrip_def py_rstrip_def py_str_def
      py_isspace_def)

lemma strip_tabbed:
  "optimize_prompt TokenOptimizer (9 # py_str '' a b c d '' @ [10]) = py_str ''a b c d''"
  by (simp add: optimize_prompt_def py_strip_def py_lstrip_def py_rstrip_def py_str_def
      py_isspace_def)

lemma strip_abc: "optimize_prompt TokenOptimizer (py_str ''abc'') = py_str ''abc''"
  by (simp add: optimize_prompt_def py_strip_def py_lstrip_def py_rstrip_def py_str_def
      py_isspace_def)

section \<open>Construction\<close>

lemma sample_init:
  "TokenEncoder_init sample_tiktoken default_model
     = Inr \<lparr>encoding = sample_encoding ''cl100k_base''\<rparr>"
  by (simp add: TokenEncoder_init_def sample_tiktoken_def default_model_def)

text \<open>
  The only exception that can leave the encoder's constructor is the one raised by the
  fallback lookup itself.
\<close>

lemma TokenEncoder_init_raises_only_fallback:
  "TokenEncoder_init lib model = Inl err \<Longrightarrow>
     isl (encoding_for_model lib model) \<and> get_encoding lib (py_str ''cl100k_base'') = Inl err"
  by (auto simp: TokenEncoder_init_def split: sum.splits)




text \<open>
  C4 as stated does not hold: the constructors do not inspect the sign of the limit.
  With the sample library, a service built with limit \<open>-1\<close> is returned, holds
  \<open>-1\<close> as its limit and processes a prompt, dropping the last token.
\<close>

theorem negative_limit_not_rejected:
  "\<not> isl (TokenService_init sample_tiktoken default_model (- 1))
   \<and> token_limit (truncator (projr
         (TokenService_init sample_tiktoken default_model (- 1)))) = - 1
   \<and> process_prompt (projr (TokenService_init sample_tiktoken default_model (- 1)))
        (py_str ''abc'')
       = Inr \<lparr>optimized_prompt = py_str ''abc'', encoded_tokens = [97, 98, 99],
              token_count_before = 3, truncated_tokens = [97, 98], token_count_after = 2\<rparr>"
proof -
  have s: "TokenService_init sample_tiktoken default_model (- 1)
             = Inr (sample_service (- 1))"
    by (simp add: TokenService_init_def sample_init sample_service_def)
  have p: "process_prompt (sample_service (- 1)) (py_str ''abc'')
       = Inr \<lparr>optimized_prompt = py_str ''abc'', encoded_tokens = [97, 98, 99],
              token_count_before = 3, truncated_tokens = [97, 98], token_count_after = 2\<rparr>"
  proof -
    have t: "truncate (truncator (sample_service (- 1))) [97, 98, 99] = Inr [97, 98]"
      using truncate_neg_formats [of "truncator (sample_service (- 1))" "[97, 98, 99]"]
      by (simp add: sample_service_fields small_int_formats)
    have e: "encode (encoder (sample_service (- 1))) (py_str ''abc'') = Inr [97, 98, 99]"
      by (simp add: sample_encode) (simp add: py_str_def)
    show ?thesis
      by (simp add: process_prompt_def Let_def sample_service_fields strip_abc e t
          get_token_count_def)
  qed
  show ?thesis by (simp add: s p sample_service_fields)
qed

text \<open>
  C4 (amended): constructing the pipeline with a negative limit does not fail. The
  truncator's constructor stores the negative limit as given, and the service's
  constructor returns a service holding that truncator whenever the encoder's
  construction succeeds; no check of the limit takes place.
\<close>

theorem construction_accepts_negative_limit:
  assumes "L < 0" and "TokenEncoder_init lib model = Inr enc"
  shows "TokenTruncator_init L = \<lparr>token_limit = L\<rparr>
         \<and> TokenService_init lib model L =
             Inr \<lparr>optimizer = TokenOptimizer, encoder = enc, counter = TokenCounter,
                  truncator = \<lparr>token_limit = L\<rparr>\<rparr>"
  using assms(2) by (simp add: TokenService_init_def TokenTruncator_init_def)

theorem construction_accepts_negative_limit_witness:
  "(- 1 :: int) < 0
   \<and> TokenEncoder_init sample_tiktoken default_model
       = Inr \<lparr>encoding = sample_encoding ''cl100k_base''\<rparr>
   \<and> TokenTruncator_init (- 1) = \<lparr>token_limit = - 1\<rparr>
   \<and> TokenService_init sample_tiktoken default_model (- 1) =
       Inr \<lparr>optimizer = TokenOptimizer, encoder = \<lparr>encoding = sample_encoding ''cl100k_base''\<rparr>,
            counter = TokenCounter, truncator = \<lparr>token_limit = - 1\<rparr>\<rparr>"
proof -
  have n: "(- 1 :: int) < 0" by simp
  show ?thesis
    using construction_accepts_negative_limit [OF n sample_init] sample_init by simp
qed

section \<open>The pipeline\<close>

lemma process_prompt_steps:
  assumes "encode (encoder self) (optimize_prompt (optimizer self) p) = Inr toks"
    and "truncate (truncator self) toks = Inr tr"
  shows "process_prompt self p =
           Inr \<lparr>optimized_prompt = optimize_prompt (optimizer self) p,
                encoded_tokens = toks,
                token_count_before = int (length toks),
                truncated_tokens = tr,
                token_count_after = int (length tr)\<rparr>"
  using assms by (simp add: process_prompt_def Let_def get_token_count_def)

text \<open>
  C1: whenever the codec encodes the normalized prompt, \<open>process_prompt\<close> is the
  composition, in this order, of normalizing, encoding, counting, truncating and
  counting: when the truncation returns, the result holds the normalized prompt, its
  encoding, the count of the encoding, the truncation of the encoding and the count of
  the truncation; an exception of the truncation is passed on. No step is skipped.
\<close>

theorem process_prompt_composition:
  assumes "encode (encoder self) (optimize_prompt (optimizer self) p) = Inr toks"
  shows "process_prompt self p =
           (case truncate (truncator self) toks of
              Inl e \<Rightarrow> Inl e
            | Inr tr \<Rightarrow>
                Inr \<lparr>optimized_prompt = optimize_prompt (optimizer self) p,
                     encoded_tokens = toks,
                     token_count_before = get_token_count (counter self) toks,
                     truncated_tokens = tr,
                     token_count_after = get_token_count (counter self) tr\<rparr>)"
proof (cases "truncate (truncator self) toks")
  case (Inl e)
  with assms show ?thesis by (simp add: process_prompt_def Let_def)
next
  case (Inr tr)
  with assms show ?thesis by (simp add: process_prompt_def Let_def)
qed

theorem process_prompt_composition_witness:
  "encode (encoder (sample_service 3))
      (optimize_prompt (optimizer (sample_service 3)) (py_str ''  hello  ''))
     = Inr [104, 101, 108, 108, 111]
   \<and> truncate (truncator (sample_service 3)) [104, 101, 108, 108, 111] = Inr [104, 101, 108]
   \<and> process_prompt (sample_service 3) (py_str ''  hello  '') =
       Inr \<lparr>optimized_prompt = py_str ''hello'',
            encoded_tokens = [104, 101, 108, 108, 111],
            token_count_before = 5,
            truncated_tokens = [104, 101, 108],
            token_count_after = 3\<rparr>"
proof -
  have h: "encode (encoder (sample_service 3))
      (optimize_prompt (optimizer (sample_service 3)) (py_str ''  hello  ''))
     = Inr [104, 101, 108, 108, 111]"
    by (simp add: sample_encode sample_service_fields strip_hello) (simp add: py_str_def)
  have t: "truncate (truncator (sample_service 3)) [104, 101, 108, 108, 111] = Inr [104, 101, 108]"
    by (simp add: truncate_nonneg sample_service_fields)
  show ?thesis
    using process_prompt_composition [OF h] h t
    by (simp add: sample_service_fields strip_hello get_token_count_def)
qed

text \<open>
  C2: for a pipeline whose limit is \<open>\<ge> 0\<close> and every prompt the codec encodes, the
  returned result satisfies \<open>countAfter = len(truncatedTokens) \<le> min(countBefore, limit)\<close>
  and its truncated tokens are a prefix of its tokens.
\<close>

theorem process_prompt_invariant:
  assumes "0 \<le> token_limit (truncator self)"
    and "encode (encoder self) (optimize_prompt (optimizer self) p) = Inr toks"
  shows "\<exists>r. process_prompt self p = Inr r
           \<and> token_count_after r = int (length (truncated_tokens r))
           \<and> token_count_after r \<le> min (token_count_before r) (token_limit (truncator self))
           \<and> prefix (truncated_tokens r) (encoded_tokens r)"
proof -
  let ?t = "take (nat (token_limit (truncator self))) toks"
  have eq: "truncate (truncator self) toks = Inr ?t"
    using assms(1) by (rule truncate_nonneg)
  have len: "int (length ?t) \<le> min (int (length toks)) (token_limit (truncator self))"
    using assms(1) by auto
  have pre: "prefix ?t toks"
    by (rule take_is_prefix)
  show ?thesis
    unfolding process_prompt_steps [OF assms(2) eq] using len pre by simp
qed

theorem process_prompt_invariant_witness:
  "0 \<le> token_limit (truncator (sample_service 2))
   \<and> encode (encoder (sample_service 2))
        (optimize_prompt (optimizer (sample_service 2)) (9 # py_str '' a b c d '' @ [10]))
       = Inr [97, 32, 98, 32, 99, 32, 100]
   \<and> (\<exists>r. process_prompt (sample_service 2) (9 # py_str '' a b c d '' @ [10]) = Inr r
         \<and> token_count_after r = int (length (truncated_tokens r))
         \<and> token_count_after r \<le> min (token_count_before r) 2
         \<and> prefix (truncated_tokens r) (encoded_tokens r))"
proof -
  have l: "0 \<le> token_limit (truncator (sample_service 2))"
    by (simp add: sample_service_fields)
  have h: "encode (encoder (sample_service 2))
        (optimize_prompt (optimizer (sample_service 2)) (9 # py_str '' a b c d '' @ [10]))
       = Inr [97, 32, 98, 32, 99, 32, 100]"
    by (simp add: sample_encode sample_service_fields strip_tabbed) (simp add: py_str_def)
  show ?thesis
    using process_prompt_invariant [OF l h] l h by (simp add: sample_service_fields)
qed

text \<open>
  C8: for a pipeline with limit 0 and every prompt the codec encodes, \<open>process_prompt\<close>
  returns a result whose truncated tokens are the empty sequence and whose count after
  truncation is 0; the limit 0 is not an error.
\<close>

theorem process_prompt_limit_zero:
  assumes "token_limit (truncator self) = 0"
    and "encode (encoder self) (optimize_prompt (optimizer self) p) = Inr toks"
  shows "\<exists>r. process_prompt self p = Inr r \<and> truncated_tokens r = [] \<and> token_count_after r = 0"
proof -
  have tr: "truncate (truncator self) toks = Inr []"
    using assms(1) by (simp add: truncate_nonneg)
  show ?thesis
    unfolding process_prompt_steps [OF assms(2) tr] by simp
qed

theorem process_prompt_limit_zero_witness:
  "token_limit (truncator (sample_service 0)) = 0
   \<and> encode (encoder (sample_service 0))
        (optimize_prompt (optimizer (sample_service 0)) (py_str ''abc'')) = Inr [97, 98, 99]
   \<and> (\<exists>r. process_prompt (sample_service 0) (py_str ''abc'') = Inr r
         \<and> truncated_tokens r = [] \<and> token_count_after r = 0)"
proof -
  have l: "token_limit (truncator (sample_service 0)) = 0"
    by (simp add: sample_service_fields)
  have h: "encode (encoder (sample_service 0))
        (optimize_prompt (optimizer (sample_service 0)) (py_str ''abc'')) = Inr [97, 98, 99]"
    by (simp add: sample_encode sample_service_fields strip_abc) (simp add: py_str_def)
  show ?thesis
    using process_prompt_limit_zero [OF l h] l h by simp
qed

text \<open>
  C9: for the empty prompt and every limit \<open>\<ge> 0\<close>, under the codec contract that the
  empty string encodes to the empty sequence, \<open>process_prompt\<close> returns a result with
  both counts equal to 0.
\<close>

theorem process_prompt_empty:
  assumes "0 \<le> token_limit (truncator self)"
    and "encode (encoder self) [] = Inr []"
  shows "\<exists>r. process_prompt self [] = Inr r \<and> token_count_before r = 0 \<and> token_count_after r = 0"
proof -
  have opt: "optimize_prompt (optimizer self) [] = []"
    by (rule optimize_prompt_empty)
  have enc: "encode (encoder self) (optimize_prompt (optimizer self) []) = Inr []"
    unfolding opt by (rule assms(2))
  have tr: "truncate (truncator self) [] = Inr []"
    using assms(1) by (simp add: truncate_def)
  show ?thesis
    unfolding process_prompt_steps [OF enc tr] by simp
qed

theorem process_prompt_empty_witness:
  "0 \<le> token_limit (truncator (sample_service 7))
   \<and> encode (encoder (sample_service 7)) [] = Inr []
   \<and> (\<exists>r. process_prompt (sample_service 7) [] = Inr r
         \<and> token_count_before r = 0 \<and> token_count_after r = 0)"
proof -
  have l: "0 \<le> token_limit (truncator (sample_service 7))"
    by (simp add: sample_service_fields)
  have h: "encode (encoder (sample_service 7)) [] = Inr []"
    by (simp add: sample_encode)
  show ?thesis
    using process_prompt_empty [OF l h] l h by simp
qed

end
